theory Spec2Isabelle
  imports Main
begin

section \<open>The synchronisation state of the video journal front end\<close>

text \<open>
  The component \<open>App\<close> keeps seven pieces of state in framework hooks and changes them
  from three effects: the session initializer \<open>initializeConversation\<close>, the poller
  \<open>fetchData\<close> and the hotkey handler \<open>handleKeyDown\<close>, plus the function
  \<open>queryAgent\<close>. The embedding follows the variant of the component that tracks video
  processing (the one with \<open>isProcessingVideo\<close>).

  Each handler is a function from the state at the moment it starts to the state it
  leaves behind together with the effects it issued, in program order. One run of a
  handler is taken as one step: the values a handler reads from its closure
  (\<open>status\<close>, \<open>isProcessingVideo\<close>, \<open>isProcessingF9\<close>, \<open>initialized\<close>) are the
  values of the state at the start of the run, since each effect is re-installed
  whenever one of the values it reads changes. What the backend answers is an argument
  of the handler; a transport or decoding failure is the value \<open>Inl NetworkError\<close>.
  Console logging is left out.
\<close>

subsection \<open>Data\<close>

datatype error = NetworkError

record status_t =
  is_recording :: bool
  processed_video_count :: nat

record message =
  role :: string
  content :: string

record video =
  timestamp :: string
  summary :: string
  video_status :: "string option"

record memory_context_t =
  profile :: "string option"
  current_focus :: "string option"
  skills :: "string list option"

record conversation =
  history :: "message list"
  videos :: "video list"
  memory_context :: memory_context_t

record sync_state =
  conversationState :: conversation
  status :: status_t
  lastAgentResponse :: string
  loading :: bool
  isProcessingF9 :: bool
  initialized :: bool
  isProcessingVideo :: bool

text \<open>The values the hooks start with.\<close>

definition initialState :: sync_state where
  "initialState =
     \<lparr> conversationState = \<lparr> history = [], videos = [],
           memory_context = \<lparr> profile = None, current_focus = None, skills = None \<rparr> \<rparr>,
       status = \<lparr> is_recording = False, processed_video_count = 0 \<rparr>,
       lastAgentResponse = [],
       loading = False,
       isProcessingF9 = False,
       initialized = False,
       isProcessingVideo = False \<rparr>"

subsection \<open>Effects\<close>

datatype api_call = GetStatus | GetConversation | ToggleRecording | AgentQuery string

datatype effect = Fetch api_call | PreventDefault | SetTimeout nat

subsection \<open>The strings the component publishes\<close>

definition msgRecordingStarted :: string where
  "msgRecordingStarted =
     ''Recording started. Press F9 again when you're done to stop and analyze the recording.''"

definition msgRecordingStopped :: string where
  "msgRecordingStopped = ''Recording stopped. Processing your video, please wait...''"

definition msgToggleError :: string where
  "msgToggleError = ''Error toggling recording. Please try again.''"

definition msgAgentError :: string where
  "msgAgentError = ''Sorry, I encountered an error communicating with the agent.''"

definition querySummarize :: string where
  "querySummarize =
     ''Please summarize what videos I have available and what I can do with them.''"

definition queryWelcome :: string where
  "queryWelcome = ''What can I do with this system?''"

subsection \<open>The latest assistant message\<close>

text \<open>
  \<open>history.filter(msg => msg.role === 'assistant').pop()\<close>: the last element of the
  filtered list, \<open>undefined\<close> (here \<open>None\<close>) when the filtered list is empty.
\<close>

definition isAssistant :: "message \<Rightarrow> bool" where
  "isAssistant msg = (role msg = ''assistant'')"

definition lastAssistantMessage :: "message list \<Rightarrow> message option" where
  "lastAssistantMessage h =
     (case filter isAssistant h of [] \<Rightarrow> None | m # ms \<Rightarrow> Some (last (m # ms)))"

text \<open>
  The block both conversation fetches of the poller end with: when the history is not
  empty and holds an assistant message, its content becomes \<open>lastAgentResponse\<close>.
\<close>

definition publishLastAssistant :: "conversation \<Rightarrow> sync_state \<Rightarrow> sync_state" where
  "publishLastAssistant conversationData s =
     (if history conversationData \<noteq> [] then
        (case lastAssistantMessage (history conversationData) of
           Some lastMessage \<Rightarrow> s\<lparr>lastAgentResponse := content lastMessage\<rparr>
         | None \<Rightarrow> s)
      else s)"

definition adoptConversation :: "conversation \<Rightarrow> sync_state \<Rightarrow> sync_state" where
  "adoptConversation conversationData s =
     publishLastAssistant conversationData (s\<lparr>conversationState := conversationData\<rparr>)"

subsection \<open>queryAgent\<close>

text \<open>
  \<open>queryAgent\<close> catches its own failure: it never throws, returns \<open>null\<close> (here
  \<open>None\<close>) on failure, and clears \<open>loading\<close> in its \<open>finally\<close>.
\<close>

definition queryAgent ::
  "string \<Rightarrow> error + string \<Rightarrow> sync_state \<Rightarrow> (sync_state \<times> effect list) \<times> string option" where
  "queryAgent query resp s =
     (let s1 = s\<lparr>loading := True\<rparr> in
      case resp of
        Inr response \<Rightarrow>
          ((s1\<lparr>lastAgentResponse := response, loading := False\<rparr>, [Fetch (AgentQuery query)]),
           Some response)
      | Inl e \<Rightarrow>
          ((s1\<lparr>lastAgentResponse := msgAgentError, loading := False\<rparr>, [Fetch (AgentQuery query)]),
           None))"

subsection \<open>initializeConversation\<close>

record init_responses =
  initStatusResponse :: "error + status_t"
  initConversationResponse :: "error + conversation"
  initAgentResponse :: "error + string"

text \<open>
  \<open>setInitialized(true)\<close> is the last statement of the \<open>try\<close> body; the \<open>finally\<close>
  holds \<open>setLoading(false)\<close> only. A fetch that fails leaves the \<open>try\<close> body at once.
\<close>

definition initializeConversation ::
  "init_responses \<Rightarrow> sync_state \<Rightarrow> sync_state \<times> effect list" where
  "initializeConversation env s =
     (if initialized s then (s, [])
      else
        let s1 = s\<lparr>loading := True\<rparr> in
        case initStatusResponse env of
          Inl e \<Rightarrow> (s1\<lparr>loading := False\<rparr>, [Fetch GetStatus])
        | Inr statusData \<Rightarrow>
            if processed_video_count statusData > 0 then
              (case initConversationResponse env of
                 Inl e \<Rightarrow> (s1\<lparr>loading := False\<rparr>, [Fetch GetStatus, Fetch GetConversation])
               | Inr conversationData \<Rightarrow>
                   if \<not> list_ex isAssistant (history conversationData) then
                     (let ((s2, effs), r) = queryAgent querySummarize (initAgentResponse env) s1
                      in (s2\<lparr>initialized := True, loading := False\<rparr>,
                          [Fetch GetStatus, Fetch GetConversation] @ effs))
                   else
                     (let s2 = (case lastAssistantMessage (history conversationData) of
                                  Some lastMessage \<Rightarrow> s1\<lparr>lastAgentResponse := content lastMessage\<rparr>
                                | None \<Rightarrow> s1)
                      in (s2\<lparr>initialized := True, loading := False\<rparr>,
                          [Fetch GetStatus, Fetch GetConversation])))
            else
              (let ((s2, effs), r) = queryAgent queryWelcome (initAgentResponse env) s1
               in (s2\<lparr>initialized := True, loading := False\<rparr>, [Fetch GetStatus] @ effs)))"

subsection \<open>fetchData\<close>

record poll_responses =
  statusResponse :: "error + status_t"
  conversationResponse :: "error + conversation"
  completionConversationResponse :: "error + conversation"

text \<open>
  The three conditions the poller tests, all on the values of its closure (the state
  \<open>c\<close> at the start of the tick) and the status it has just fetched.
\<close>

definition stable :: "sync_state \<Rightarrow> bool" where
  "stable c = (\<not> is_recording (status c) \<and> \<not> isProcessingVideo c)"

definition stopEdge :: "sync_state \<Rightarrow> status_t \<Rightarrow> bool" where
  "stopEdge c statusData = (is_recording (status c) \<and> \<not> is_recording statusData)"

definition completionEdge :: "sync_state \<Rightarrow> status_t \<Rightarrow> bool" where
  "completionEdge c statusData =
     (isProcessingVideo c \<and> \<not> is_recording statusData \<and>
      processed_video_count statusData > processed_video_count (status c))"

text \<open>The first \<open>if\<close>: adopt the status, or only its recording flag.\<close>

definition updateStatus :: "sync_state \<Rightarrow> status_t \<Rightarrow> sync_state \<Rightarrow> sync_state" where
  "updateStatus c statusData s =
     (if stable c then s\<lparr>status := statusData\<rparr>
      else s\<lparr>status := (status s)\<lparr>is_recording := is_recording statusData\<rparr>\<rparr>)"

text \<open>The third \<open>if\<close>: recording has just stopped.\<close>

definition checkStopEdge :: "sync_state \<Rightarrow> status_t \<Rightarrow> sync_state \<Rightarrow> sync_state" where
  "checkStopEdge c statusData s =
     (if stopEdge c statusData
      then s\<lparr>isProcessingVideo := True, lastAgentResponse := msgRecordingStopped\<rparr>
      else s)"

text \<open>
  The fourth \<open>if\<close>: processing is done. The status is adopted and the processing flag
  cleared before the conversation is fetched, so both stay when that fetch fails.
\<close>

definition checkCompletionEdge ::
  "sync_state \<Rightarrow> status_t \<Rightarrow> error + conversation \<Rightarrow> sync_state \<Rightarrow> sync_state \<times> effect list" where
  "checkCompletionEdge c statusData resp s =
     (if completionEdge c statusData then
        (let s1 = s\<lparr>status := statusData, isProcessingVideo := False\<rparr> in
         case resp of
           Inl e \<Rightarrow> (s1, [Fetch GetConversation])
         | Inr conversationData \<Rightarrow> (adoptConversation conversationData s1, [Fetch GetConversation]))
      else (s, []))"

definition fetchData :: "poll_responses \<Rightarrow> sync_state \<Rightarrow> sync_state \<times> effect list" where
  "fetchData env c =
     (case statusResponse env of
        Inl e \<Rightarrow> (c, [Fetch GetStatus])
      | Inr statusData \<Rightarrow>
          let s1 = updateStatus c statusData c in
          if stable c then
            (case conversationResponse env of
               Inl e \<Rightarrow> (s1, [Fetch GetStatus, Fetch GetConversation])
             | Inr conversationData \<Rightarrow>
                 let s2 = adoptConversation conversationData s1;
                     s3 = checkStopEdge c statusData s2;
                     (s4, effs) = checkCompletionEdge c statusData
                                    (completionConversationResponse env) s3
                 in (s4, [Fetch GetStatus, Fetch GetConversation] @ effs))
          else
            (let s3 = checkStopEdge c statusData s1;
                 (s4, effs) = checkCompletionEdge c statusData
                                (completionConversationResponse env) s3
             in (s4, [Fetch GetStatus] @ effs)))"

subsection \<open>handleKeyDown\<close>

text \<open>
  The handler up to the point where it waits for the backend, and from the answer on.
  \<open>keyDownBefore\<close> does not see the answer: what it writes is written before the call
  completes. The flip of \<open>is_recording\<close> is a functional update, on the status as it
  is when the answer arrives.
\<close>

definition keyDownGuard :: "sync_state \<Rightarrow> bool" where
  "keyDownGuard c = (isProcessingF9 c \<or> isProcessingVideo c)"

definition keyDownBefore :: "sync_state \<Rightarrow> sync_state" where
  "keyDownBefore c =
     (let s1 = c\<lparr>isProcessingF9 := True\<rparr> in
      if \<not> is_recording (status c) then s1\<lparr>lastAgentResponse := msgRecordingStarted\<rparr> else s1)"

definition keyDownAfter :: "error + string \<Rightarrow> sync_state \<Rightarrow> sync_state" where
  "keyDownAfter resp s =
     (case resp of
        Inr data \<Rightarrow> s\<lparr>status := (status s)\<lparr>is_recording := \<not> is_recording (status s)\<rparr>\<rparr>
      | Inl e \<Rightarrow> s\<lparr>lastAgentResponse := msgToggleError\<rparr>)"

definition handleKeyDown :: "string \<Rightarrow> error + string \<Rightarrow> sync_state \<Rightarrow> sync_state \<times> effect list" where
  "handleKeyDown key resp c =
     (if key = ''F9'' then
        (if keyDownGuard c then (c, [])
         else (keyDownAfter resp (keyDownBefore c),
               [PreventDefault, Fetch ToggleRecording, SetTimeout 1000]))
      else (c, []))"

subsection \<open>Events and timers\<close>

text \<open>
  The events of a session: the initializer effect runs, the poll timer ticks, a key
  goes down, an agent query is asked (a click on a video card).
\<close>

datatype event =
    Init init_responses
  | PollTick poll_responses
  | KeyDown string "error + string"
  | Query string "error + string"

fun handle :: "event \<Rightarrow> sync_state \<Rightarrow> sync_state \<times> effect list" where
  "handle (Init env) s = initializeConversation env s"
| "handle (PollTick env) s = fetchData env s"
| "handle (KeyDown key resp) s = handleKeyDown key resp s"
| "handle (Query query resp) s = fst (queryAgent query resp s)"

text \<open>
  The page: the state and the deadlines (in milliseconds) of the pending
  \<open>setTimeout\<close> callbacks, each of which runs \<open>setIsProcessingF9(false)\<close>.

  A timed event \<open>((t, w), ev)\<close> arrives at time \<open>t\<close>, and the calls its handler awaits
  take \<open>w\<close> milliseconds in all. The callbacks that are due at the arrival have run before
  the handler reads the flags. The hotkey handler calls \<open>setTimeout\<close> in its \<open>finally\<close>,
  after the awaited toggle call: the callback is scheduled at the completion time
  \<open>t + w\<close> and is due at \<open>t + w + 1000\<close>. The writes of a handler are applied as one
  step, so an event that arrives while a handler is waiting is taken after it.
\<close>

record app =
  ui :: sync_state
  timers :: "nat list"

definition initialApp :: app where
  "initialApp = \<lparr> ui = initialState, timers = [] \<rparr>"

definition fireDue :: "nat \<Rightarrow> app \<Rightarrow> app" where
  "fireDue now a =
     (if list_ex (\<lambda>d. d \<le> now) (timers a)
      then \<lparr> ui = (ui a)\<lparr>isProcessingF9 := False\<rparr>, timers = filter (\<lambda>d. \<not> d \<le> now) (timers a) \<rparr>
      else a)"

fun newTimers :: "nat \<Rightarrow> effect list \<Rightarrow> nat list" where
  "newTimers now [] = []"
| "newTimers now (SetTimeout d # effs) = (now + d) # newTimers now effs"
| "newTimers now (e # effs) = newTimers now effs"

type_synonym timed_event = "(nat \<times> nat) \<times> event"

definition arrival :: "timed_event \<Rightarrow> nat" where
  "arrival te = fst (fst te)"

definition completion :: "timed_event \<Rightarrow> nat" where
  "completion te = fst (fst te) + snd (fst te)"

definition dispatch :: "timed_event \<Rightarrow> app \<Rightarrow> app \<times> effect list" where
  "dispatch te a =
     (let a1 = fireDue (arrival te) a;
          (s, effs) = handle (snd te) (ui a1)
      in (\<lparr> ui = s, timers = timers a1 @ newTimers (completion te) effs \<rparr>, effs))"

fun run :: "timed_event list \<Rightarrow> app \<Rightarrow> app \<times> effect list" where
  "run [] a = (a, [])"
| "run (te # tes) a =
     (let (a1, effs1) = dispatch te a;
          (a2, effs2) = run tes a1
      in (a2, effs1 @ effs2))"

subsection \<open>Observations on events and effects\<close>

text \<open>
  \<open>completionReport n ev\<close>: the event is a poll tick whose status fetch answers "not
  recording" with a count above \<open>n\<close>. \<open>toggleCalls\<close> counts the toggle calls among the
  effects. \<open>timersOk\<close>: a cooldown callback is pending exactly while \<open>isProcessingF9\<close>
  holds, and then it is the only one.
\<close>

definition completionReport :: "nat \<Rightarrow> event \<Rightarrow> bool" where
  "completionReport n ev =
     (case ev of
        PollTick env \<Rightarrow>
          (case statusResponse env of
             Inr statusData \<Rightarrow> \<not> is_recording statusData \<and> n < processed_video_count statusData
           | Inl e \<Rightarrow> False)
      | _ \<Rightarrow> False)"

definition toggleCalls :: "effect list \<Rightarrow> nat" where
  "toggleCalls effs = length (filter (\<lambda>e. e = Fetch ToggleRecording) effs)"

definition timersOk :: "app \<Rightarrow> bool" where
  "timersOk a = (if isProcessingF9 (ui a) then length (timers a) = 1 else timers a = [])"

subsection \<open>Sample values\<close>

text \<open>A history whose latest assistant message is not its last message, and a page
  that is waiting for a video to be processed.\<close>

definition sampleConversation :: conversation where
  "sampleConversation =
     \<lparr> history = [\<lparr>role = ''user'', content = ''hi''\<rparr>,
                  \<lparr>role = ''assistant'', content = ''hello''\<rparr>,
                  \<lparr>role = ''user'', content = ''bye''\<rparr>],
       videos = [],
       memory_context = \<lparr> profile = None, current_focus = None, skills = None \<rparr> \<rparr>"

definition samplePoll :: "bool \<Rightarrow> nat \<Rightarrow> poll_responses" where
  "samplePoll r n =
     \<lparr> statusResponse = Inr \<lparr> is_recording = r, processed_video_count = n \<rparr>,
       conversationResponse = Inr sampleConversation,
       completionConversationResponse = Inr sampleConversation \<rparr>"

definition processingState :: sync_state where
  "processingState = initialState\<lparr>isProcessingVideo := True\<rparr>"

definition sampleInit :: "nat \<Rightarrow> error + string \<Rightarrow> init_responses" where
  "sampleInit n answer =
     \<lparr> initStatusResponse = Inr \<lparr> is_recording = False, processed_video_count = n \<rparr>,
       initConversationResponse = Inr sampleConversation,
       initAgentResponse = answer \<rparr>"

definition sampleInitFailure :: init_responses where
  "sampleInitFailure =
     \<lparr> initStatusResponse = Inl NetworkError,
       initConversationResponse = Inl NetworkError,
       initAgentResponse = Inl NetworkError \<rparr>"

definition failedPoll :: poll_responses where
  "failedPoll =
     \<lparr> statusResponse = Inl NetworkError,
       conversationResponse = Inl NetworkError,
       completionConversationResponse = Inl NetworkError \<rparr>"

text \<open>Events that arrive while a video is being processed and the count stays at 0.\<close>

definition sampleWindow :: "timed_event list" where
  "sampleWindow =
     [((1000, 300), Query ''Tell me about video 0'' (Inl NetworkError)),
      ((5000, 40), PollTick failedPoll),
      ((6000, 0), KeyDown ''F9'' (Inr ''Recording started'')),
      ((7000, 40), Init sampleInitFailure),
      ((10000, 40), PollTick (samplePoll True 3)),
      ((15000, 40), PollTick (samplePoll False 0))]"

text \<open>
  A session in which a second recording, started from elsewhere, is seen by the poller
  while the first video is still being processed: the hotkey starts a recording, a tick
  sees it stopped, the next tick sees a recording again.
\<close>

definition echoTrace :: "timed_event list" where
  "echoTrace =
     [((0, 200), KeyDown ''F9'' (Inr ''Recording started'')),
      ((5000, 40), PollTick (samplePoll False 0)),
      ((10000, 40), PollTick (samplePoll True 0))]"

definition echoState :: sync_state where
  "echoState = ui (fst (run echoTrace initialApp))"

text \<open>
  Key repeats of F9 after a first F9 at time 0 whose toggle call takes 500 ms: the last
  two arrive more than a second after the key press, and less than a second after the
  call has completed.
\<close>

definition sampleRepeats :: "timed_event list" where
  "sampleRepeats =
     [((30, 0), KeyDown ''F9'' (Inr ''Recording stopped'')),
      ((60, 0), KeyDown ''F9'' (Inl NetworkError)),
      ((999, 0), KeyDown ''F9'' (Inr ''Recording stopped'')),
      ((1200, 0), KeyDown ''F9'' (Inr ''Recording stopped'')),
      ((1499, 0), KeyDown ''F9'' (Inl NetworkError))]"

section \<open>Properties\<close>

subsection \<open>The latest assistant message\<close>

text \<open>
  \<open>lastAssistantMessage\<close> returns the assistant message after which no assistant message
  follows, and nothing when the history holds none.
\<close>

lemma lastAssistantMessage_None:
  "\<not> list_ex isAssistant h \<Longrightarrow> lastAssistantMessage h = None"
  by (simp add: lastAssistantMessage_def list_ex_iff filter_empty_conv split: list.splits)

lemma filter_last_decomp:
  "\<not> list_ex P suf \<Longrightarrow> P m \<Longrightarrow> filter P (pre @ m # suf) = filter P pre @ [m]"
  by (induction suf) auto

lemma lastAssistantMessage_Some:
  assumes "isAssistant m" and "\<not> list_ex isAssistant suf"
  shows "lastAssistantMessage (pre @ m # suf) = Some m"
proof -
  have "filter isAssistant (pre @ m # suf) = filter isAssistant pre @ [m]"
    by (rule filter_last_decomp [OF assms(2) assms(1)])
  moreover have "(case ys @ [m] of [] \<Rightarrow> None | a # b \<Rightarrow> Some (last (a # b))) = Some m" for ys
    by (cases ys) simp_all
  ultimately show ?thesis
    by (simp only: lastAssistantMessage_def)
qed

lemma lastAssistantMessage_cases:
  "lastAssistantMessage h = None \<and> \<not> list_ex isAssistant h \<or>
   (\<exists>pre m suf. h = pre @ m # suf \<and> isAssistant m \<and> \<not> list_ex isAssistant suf \<and>
      lastAssistantMessage h = Some m)"
proof (cases "list_ex isAssistant h")
  case False
  then show ?thesis by (simp add: lastAssistantMessage_None)
next
  case True
  then have "\<exists>x\<in>set h. isAssistant x" by (simp add: list_ex_iff)
  then obtain pre m suf where h: "h = pre @ m # suf" and m: "isAssistant m"
    and s: "\<forall>z\<in>set suf. \<not> isAssistant z"
    using split_list_last_prop [of h isAssistant] by blast
  have suf: "\<not> list_ex isAssistant suf" using s by (simp add: list_ex_iff)
  show ?thesis using h m suf lastAssistantMessage_Some [OF m suf] by blast
qed

subsection \<open>The hotkey handler\<close>

text \<open>
  Claim C4. An F9 keydown that arrives while \<open>isProcessingF9\<close> or \<open>isProcessingVideo\<close>
  holds does nothing: the handler returns the state it found and issues no effect, so
  no toggle call goes out and no field of the state changes.
\<close>

theorem reentrancy_guard_noop:
  "isProcessingF9 c \<or> isProcessingVideo c \<Longrightarrow> handleKeyDown ''F9'' resp c = (c, [])"
  by (simp add: handleKeyDown_def keyDownGuard_def)

theorem reentrancy_guard_noop_witness:
  "isProcessingVideo (initialState\<lparr>isProcessingVideo := True\<rparr>) \<and>
   handleKeyDown ''F9'' (Inr ''Recording started'') (initialState\<lparr>isProcessingVideo := True\<rparr>)
     = (initialState\<lparr>isProcessingVideo := True\<rparr>, [])"
  using reentrancy_guard_noop [of "initialState\<lparr>isProcessingVideo := True\<rparr>" "Inr ''Recording started''"]
  by simp

text \<open>
  Claim C7. On an F9 keydown that passes the guard, the handler is the part after the
  answer applied to the part before it, and the part before it does not see the answer:
  when the state is not recording, the part before the call has already published the
  "recording started" message. When the call succeeds the recording flag is flipped and
  nothing else of the status changes; when it fails the error message is published and
  the status is as before. In both cases \<open>isProcessingVideo\<close> stays false.
\<close>

theorem toggle_trigger:
  assumes "\<not> isProcessingF9 c" and "\<not> isProcessingVideo c"
  shows "handleKeyDown ''F9'' resp c =
           (keyDownAfter resp (keyDownBefore c),
            [PreventDefault, Fetch ToggleRecording, SetTimeout 1000]) \<and>
         isProcessingF9 (keyDownBefore c) \<and>
         (\<not> is_recording (status c) \<longrightarrow>
            lastAgentResponse (keyDownBefore c) =
              ''Recording started. Press F9 again when you're done to stop and analyze the recording.'') \<and>
         (is_recording (status c) \<longrightarrow> lastAgentResponse (keyDownBefore c) = lastAgentResponse c) \<and>
         status (keyDownBefore c) = status c \<and>
         (\<forall>data. resp = Inr data \<longrightarrow>
            status (fst (handleKeyDown ''F9'' resp c)) =
              (status c)\<lparr>is_recording := \<not> is_recording (status c)\<rparr> \<and>
            lastAgentResponse (fst (handleKeyDown ''F9'' resp c)) = lastAgentResponse (keyDownBefore c)) \<and>
         (\<forall>e. resp = Inl e \<longrightarrow>
            lastAgentResponse (fst (handleKeyDown ''F9'' resp c)) =
              ''Error toggling recording. Please try again.'' \<and>
            status (fst (handleKeyDown ''F9'' resp c)) = status c) \<and>
         \<not> isProcessingVideo (fst (handleKeyDown ''F9'' resp c))"
  using assms
  by (simp add: handleKeyDown_def keyDownGuard_def keyDownBefore_def keyDownAfter_def
      msgRecordingStarted_def msgToggleError_def Let_def split: sum.splits)

theorem toggle_trigger_witness:
  "handleKeyDown ''F9'' (Inl NetworkError) initialState =
     (initialState\<lparr>isProcessingF9 := True,
        lastAgentResponse := ''Error toggling recording. Please try again.''\<rparr>,
      [PreventDefault, Fetch ToggleRecording, SetTimeout 1000]) \<and>
   lastAgentResponse (keyDownBefore initialState) =
     ''Recording started. Press F9 again when you're done to stop and analyze the recording.'' \<and>
   is_recording (status (fst (handleKeyDown ''F9'' (Inr ''Recording started'') initialState)))"
  using toggle_trigger [of initialState "Inl NetworkError"]
    toggle_trigger [of initialState "Inr ''Recording started''"]
  by (simp add: initialState_def keyDownBefore_def keyDownAfter_def msgRecordingStarted_def
      msgToggleError_def)

subsection \<open>The poller\<close>

text \<open>What a tick does, path by path.\<close>

lemma adoptConversation_eq:
  "adoptConversation cd s =
     s\<lparr>conversationState := cd,
       lastAgentResponse := (case lastAssistantMessage (history cd) of
                               Some m \<Rightarrow> content m | None \<Rightarrow> lastAgentResponse s)\<rparr>"
  by (cases "history cd")
     (simp_all add: adoptConversation_def publishLastAssistant_def lastAssistantMessage_def
        split: option.splits list.splits)

lemma fetchData_stable:
  assumes "stable c" and "statusResponse env = Inr statusData"
    and "conversationResponse env = Inr conversationData"
  shows "fetchData env c =
           (adoptConversation conversationData (c\<lparr>status := statusData\<rparr>),
            [Fetch GetStatus, Fetch GetConversation])"
  using assms
  by (simp add: fetchData_def updateStatus_def checkStopEdge_def checkCompletionEdge_def
      stopEdge_def completionEdge_def stable_def)

lemma fetchData_stable_conv_fails:
  assumes "stable c" and "statusResponse env = Inr statusData"
    and "conversationResponse env = Inl e"
  shows "fetchData env c = (c\<lparr>status := statusData\<rparr>, [Fetch GetStatus, Fetch GetConversation])"
  using assms by (simp add: fetchData_def updateStatus_def)

lemma fetchData_status_fails:
  "statusResponse env = Inl e \<Longrightarrow> fetchData env c = (c, [Fetch GetStatus])"
  by (simp add: fetchData_def)

lemma fetchData_window:
  assumes "\<not> stable c" and "statusResponse env = Inr statusData"
  shows "fetchData env c =
           (let s1 = c\<lparr>status := (status c)\<lparr>is_recording := is_recording statusData\<rparr>\<rparr>;
                s3 = checkStopEdge c statusData s1;
                r = checkCompletionEdge c statusData (completionConversationResponse env) s3
            in (fst r, Fetch GetStatus # snd r))"
  using assms by (simp add: fetchData_def updateStatus_def Let_def split: prod.splits)

text \<open>
  Claim C6. A tick that starts in the stable state (the stored status is not recording
  and \<open>isProcessingVideo\<close> is false) and whose two fetches succeed issues exactly the
  status fetch and one conversation fetch, stores the fetched status as it is, stores the
  fetched conversation as it is, and publishes the content of the last message with role
  assistant of the fetched history; when the history holds no assistant message,
  \<open>lastAgentResponse\<close> is what it was. The other fields are unchanged.
\<close>

theorem stable_tick_full_adopt:
  assumes "\<not> is_recording (status c)" and "\<not> isProcessingVideo c"
    and "statusResponse env = Inr statusData"
    and "conversationResponse env = Inr conversationData"
  shows "snd (fetchData env c) = [Fetch GetStatus, Fetch GetConversation] \<and>
         status (fst (fetchData env c)) = statusData \<and>
         conversationState (fst (fetchData env c)) = conversationData \<and>
         (\<forall>pre m suf. history conversationData = pre @ m # suf \<and> role m = ''assistant'' \<and>
              \<not> list_ex (\<lambda>x. role x = ''assistant'') suf \<longrightarrow>
            lastAgentResponse (fst (fetchData env c)) = content m) \<and>
         (\<not> list_ex (\<lambda>x. role x = ''assistant'') (history conversationData) \<longrightarrow>
            lastAgentResponse (fst (fetchData env c)) = lastAgentResponse c) \<and>
         loading (fst (fetchData env c)) = loading c \<and>
         isProcessingF9 (fst (fetchData env c)) = isProcessingF9 c \<and>
         initialized (fst (fetchData env c)) = initialized c \<and>
         \<not> isProcessingVideo (fst (fetchData env c))"
proof -
  have st: "stable c" using assms(1,2) by (simp add: stable_def)
  have eq: "fetchData env c =
      (adoptConversation conversationData (c\<lparr>status := statusData\<rparr>),
       [Fetch GetStatus, Fetch GetConversation])"
    by (rule fetchData_stable [OF st assms(3,4)])
  have isA: "(\<lambda>x. role x = ''assistant'') = isAssistant"
    by (simp add: isAssistant_def fun_eq_iff)
  have some: "lastAgentResponse (fst (fetchData env c)) = content m"
    if "history conversationData = pre @ m # suf" "isAssistant m" "\<not> list_ex isAssistant suf"
    for pre m suf
    using that lastAssistantMessage_Some [of m suf pre]
    by (simp add: eq adoptConversation_eq)
  have none: "lastAgentResponse (fst (fetchData env c)) = lastAgentResponse c"
    if "\<not> list_ex isAssistant (history conversationData)"
    using lastAssistantMessage_None [OF that] by (simp add: eq adoptConversation_eq)
  show ?thesis
    using some none assms(2) unfolding isA
    by (simp add: eq adoptConversation_eq isAssistant_def)
qed

lemma fetchData_conversation:
  "conversationState (fst (fetchData env c)) = conversationState c \<or>
   conversationResponse env = Inr (conversationState (fst (fetchData env c))) \<or>
   completionConversationResponse env = Inr (conversationState (fst (fetchData env c)))"
  by (simp add: fetchData_def updateStatus_def checkStopEdge_def checkCompletionEdge_def
      adoptConversation_eq Let_def split: sum.splits prod.splits)

lemma handle_conversation_other:
  "\<forall>env. ev \<noteq> PollTick env \<Longrightarrow>
   conversationState (fst (handle ev s)) = conversationState s"
  by (cases ev)
     (simp_all add: initializeConversation_def queryAgent_def handleKeyDown_def keyDownBefore_def
        keyDownAfter_def Let_def split: sum.splits option.splits prod.splits)

text \<open>
  Claim C5. In a recording or processing window, a tick that fetches a status on which
  neither the stop edge nor the completion edge fires changes the recording flag of the
  stored status and nothing else: the count, the conversation and \<open>lastAgentResponse\<close>
  are as before, and only the status fetch is issued; a tick whose status fetch fails
  changes nothing at all. On every tick the conversation in the state afterwards is either
  the one before or one of the fetched snapshots, whole; no other event changes it.
\<close>

theorem partial_update_tick:
  "((is_recording (status c) \<or> isProcessingVideo c) \<and> statusResponse env = Inr statusData \<and>
      \<not> stopEdge c statusData \<and> \<not> completionEdge c statusData \<longrightarrow>
    fetchData env c =
      (c\<lparr>status := (status c)\<lparr>is_recording := is_recording statusData\<rparr>\<rparr>, [Fetch GetStatus])) \<and>
   (statusResponse env = Inl e \<longrightarrow> fetchData env c = (c, [Fetch GetStatus])) \<and>
   (conversationState (fst (fetchData env c)) = conversationState c \<or>
    conversationResponse env = Inr (conversationState (fst (fetchData env c))) \<or>
    completionConversationResponse env = Inr (conversationState (fst (fetchData env c)))) \<and>
   ((\<forall>env'. ev \<noteq> PollTick env') \<longrightarrow>
    conversationState (fst (handle ev c)) = conversationState c)"
proof -
  have "fetchData env c =
      (c\<lparr>status := (status c)\<lparr>is_recording := is_recording statusData\<rparr>\<rparr>, [Fetch GetStatus])"
    if w: "is_recording (status c) \<or> isProcessingVideo c"
      and r: "statusResponse env = Inr statusData"
      and e1: "\<not> stopEdge c statusData" and e2: "\<not> completionEdge c statusData"
  proof -
    have "\<not> stable c" using w by (auto simp: stable_def)
    then show ?thesis
      using r e1 e2 by (simp add: fetchData_window checkStopEdge_def checkCompletionEdge_def)
  qed
  then show ?thesis
    using fetchData_conversation [of env c] handle_conversation_other [of ev c]
      fetchData_status_fails [of env e c]
    by blast
qed

text \<open>
  Claim C1. A tick that runs while \<open>isProcessingVideo\<close> holds and fetches a status that
  is not recording and whose count is above the stored count stores the fetched status,
  clears \<open>isProcessingVideo\<close> and issues, after the status fetch, exactly one conversation
  fetch; when that fetch answers, the snapshot is stored and the content of its last
  assistant message is published. The state it leaves is stable: the next tick whose
  fetches succeed adopts status and conversation in full.
\<close>

theorem completion_edge_tick:
  assumes "isProcessingVideo c"
    and "statusResponse env = Inr statusData"
    and "\<not> is_recording statusData"
    and "processed_video_count statusData > processed_video_count (status c)"
  shows "snd (fetchData env c) = [Fetch GetStatus, Fetch GetConversation] \<and>
         status (fst (fetchData env c)) = statusData \<and>
         \<not> isProcessingVideo (fst (fetchData env c)) \<and>
         (\<forall>conversationData. completionConversationResponse env = Inr conversationData \<longrightarrow>
            conversationState (fst (fetchData env c)) = conversationData \<and>
            (\<forall>pre m suf. history conversationData = pre @ m # suf \<and> role m = ''assistant'' \<and>
                 \<not> list_ex (\<lambda>x. role x = ''assistant'') suf \<longrightarrow>
               lastAgentResponse (fst (fetchData env c)) = content m)) \<and>
         (\<forall>env' statusData' conversationData'.
            statusResponse env' = Inr statusData' \<and> conversationResponse env' = Inr conversationData' \<longrightarrow>
            fetchData env' (fst (fetchData env c)) =
              (adoptConversation conversationData' ((fst (fetchData env c))\<lparr>status := statusData'\<rparr>),
               [Fetch GetStatus, Fetch GetConversation]))"
proof -
  let ?s1 = "c\<lparr>status := (status c)\<lparr>is_recording := is_recording statusData\<rparr>\<rparr>"
  let ?s3 = "checkStopEdge c statusData ?s1"
  let ?s' = "fst (fetchData env c)"
  have ns: "\<not> stable c" using assms(1) by (simp add: stable_def)
  have ce: "completionEdge c statusData" using assms(1,3,4) by (simp add: completionEdge_def)
  have eq: "fetchData env c =
      (case completionConversationResponse env of
         Inl e \<Rightarrow> ?s3\<lparr>status := statusData, isProcessingVideo := False\<rparr>
       | Inr cd \<Rightarrow> adoptConversation cd (?s3\<lparr>status := statusData, isProcessingVideo := False\<rparr>),
       [Fetch GetStatus, Fetch GetConversation])"
    using ce by (simp add: fetchData_window [OF ns assms(2)] checkCompletionEdge_def Let_def
        split: sum.splits)
  have effs: "snd (fetchData env c) = [Fetch GetStatus, Fetch GetConversation]"
    by (simp add: eq)
  have st: "status ?s' = statusData"
    by (simp add: eq adoptConversation_eq split: sum.splits)
  have pv: "\<not> isProcessingVideo ?s'"
    by (simp add: eq adoptConversation_eq split: sum.splits)
  have isA: "(\<lambda>x. role x = ''assistant'') = isAssistant"
    by (simp add: isAssistant_def fun_eq_iff)
  have conv: "conversationState ?s' = cd"
    if "completionConversationResponse env = Inr cd" for cd
    using that by (simp add: eq adoptConversation_eq)
  have resp: "lastAgentResponse ?s' = content m"
    if "completionConversationResponse env = Inr cd" "history cd = pre @ m # suf"
      "isAssistant m" "\<not> list_ex isAssistant suf" for cd pre m suf
    using that lastAssistantMessage_Some [of m suf pre] by (simp add: eq adoptConversation_eq)
  have stab: "stable ?s'" using st pv assms(3) by (simp add: stable_def)
  have nxt: "fetchData env' ?s' =
      (adoptConversation cd' (?s'\<lparr>status := sd'\<rparr>), [Fetch GetStatus, Fetch GetConversation])"
    if "statusResponse env' = Inr sd'" "conversationResponse env' = Inr cd'" for env' sd' cd'
    using fetchData_stable [OF stab that] .
  show ?thesis
    unfolding isA using effs st pv conv resp nxt by (simp add: isAssistant_def) 
qed

theorem stable_tick_full_adopt_witness:
  "fetchData (samplePoll False 2) initialState =
     (initialState\<lparr>status := \<lparr>is_recording = False, processed_video_count = 2\<rparr>,
        conversationState := sampleConversation, lastAgentResponse := ''hello''\<rparr>,
      [Fetch GetStatus, Fetch GetConversation])"
proof -
  let ?sd = "\<lparr>is_recording = False, processed_video_count = 2\<rparr>"
  let ?s' = "fst (fetchData (samplePoll False 2) initialState)"
  have h1: "\<not> is_recording (status initialState)" and h2: "\<not> isProcessingVideo initialState"
    by (simp_all add: initialState_def)
  have h3: "statusResponse (samplePoll False 2) = Inr ?sd"
    and h4: "conversationResponse (samplePoll False 2) = Inr sampleConversation"
    by (simp_all add: samplePoll_def)
  note t = stable_tick_full_adopt [OF h1 h2 h3 h4]
  have a: "\<forall>pre m suf. history sampleConversation = pre @ m # suf \<and> role m = ''assistant'' \<and>
              \<not> list_ex (\<lambda>x. role x = ''assistant'') suf \<longrightarrow> lastAgentResponse ?s' = content m"
    using t by simp
  have r: "lastAgentResponse ?s' = ''hello''"
    using a [rule_format, of "[\<lparr>role = ''user'', content = ''hi''\<rparr>]"
        "\<lparr>role = ''assistant'', content = ''hello''\<rparr>" "[\<lparr>role = ''user'', content = ''bye''\<rparr>]"]
    by (simp add: sampleConversation_def)
  have e: "snd (fetchData (samplePoll False 2) initialState) = [Fetch GetStatus, Fetch GetConversation]"
    and s: "status ?s' = ?sd" and c: "conversationState ?s' = sampleConversation"
    and l: "loading ?s' = loading initialState"
    and f: "isProcessingF9 ?s' = isProcessingF9 initialState"
    and i: "initialized ?s' = initialized initialState"
    and p: "\<not> isProcessingVideo ?s'"
    using t by simp_all
  have "?s' = initialState\<lparr>status := ?sd, conversationState := sampleConversation,
      lastAgentResponse := ''hello''\<rparr>"
    using s c l f i p r by (simp add: initialState_def)
  then show ?thesis using e by (simp add: prod_eq_iff)
qed

theorem partial_update_tick_witness:
  "fetchData (samplePoll True 5) processingState =
     (processingState\<lparr>status := \<lparr>is_recording = True, processed_video_count = 0\<rparr>\<rparr>,
      [Fetch GetStatus]) \<and>
   conversationState (fst (handle (KeyDown ''F9'' (Inl NetworkError)) processingState)) =
     conversationState processingState"
proof -
  let ?sd = "\<lparr>is_recording = True, processed_video_count = 5\<rparr>"
  note t = partial_update_tick [of processingState "samplePoll True 5" ?sd NetworkError
      "KeyDown ''F9'' (Inl NetworkError)"]
  have h: "(is_recording (status processingState) \<or> isProcessingVideo processingState) \<and>
      statusResponse (samplePoll True 5) = Inr ?sd \<and>
      \<not> stopEdge processingState ?sd \<and> \<not> completionEdge processingState ?sd"
    by (simp add: processingState_def initialState_def samplePoll_def stopEdge_def completionEdge_def)
  have k: "\<forall>env'. KeyDown ''F9'' (Inl NetworkError) \<noteq> PollTick env'" by simp
  have "status processingState\<lparr>is_recording := is_recording ?sd\<rparr> =
      \<lparr>is_recording = True, processed_video_count = 0\<rparr>"
    by (simp add: processingState_def initialState_def)
  then show ?thesis using t h k by simp
qed

theorem completion_edge_tick_witness:
  "snd (fetchData (samplePoll False 1) processingState) = [Fetch GetStatus, Fetch GetConversation] \<and>
   status (fst (fetchData (samplePoll False 1) processingState)) =
     \<lparr>is_recording = False, processed_video_count = 1\<rparr> \<and>
   \<not> isProcessingVideo (fst (fetchData (samplePoll False 1) processingState)) \<and>
   conversationState (fst (fetchData (samplePoll False 1) processingState)) = sampleConversation \<and>
   lastAgentResponse (fst (fetchData (samplePoll False 1) processingState)) = ''hello''"
proof -
  let ?sd = "\<lparr>is_recording = False, processed_video_count = 1\<rparr>"
  let ?s' = "fst (fetchData (samplePoll False 1) processingState)"
  have h1: "isProcessingVideo processingState"
    and h4: "processed_video_count ?sd > processed_video_count (status processingState)"
    by (simp_all add: processingState_def initialState_def)
  have h2: "statusResponse (samplePoll False 1) = Inr ?sd"
    and h5: "completionConversationResponse (samplePoll False 1) = Inr sampleConversation"
    by (simp_all add: samplePoll_def)
  have h3: "\<not> is_recording ?sd" by simp
  note t = completion_edge_tick [OF h1 h2 h3 h4]
  have a: "\<forall>conversationData. completionConversationResponse (samplePoll False 1) = Inr conversationData \<longrightarrow>
            conversationState ?s' = conversationData \<and>
            (\<forall>pre m suf. history conversationData = pre @ m # suf \<and> role m = ''assistant'' \<and>
                 \<not> list_ex (\<lambda>x. role x = ''assistant'') suf \<longrightarrow>
               lastAgentResponse ?s' = content m)"
    using t by simp
  note b = a [rule_format, OF h5]
  have c: "conversationState ?s' = sampleConversation" using b by simp
  have d: "\<forall>pre m suf. history sampleConversation = pre @ m # suf \<and> role m = ''assistant'' \<and>
                 \<not> list_ex (\<lambda>x. role x = ''assistant'') suf \<longrightarrow>
               lastAgentResponse ?s' = content m" using b by simp
  have r: "lastAgentResponse ?s' = ''hello''"
    using d [rule_format, of "[\<lparr>role = ''user'', content = ''hi''\<rparr>]"
        "\<lparr>role = ''assistant'', content = ''hello''\<rparr>" "[\<lparr>role = ''user'', content = ''bye''\<rparr>]"]
    by (simp add: sampleConversation_def)
  have e: "snd (fetchData (samplePoll False 1) processingState) = [Fetch GetStatus, Fetch GetConversation]"
    and s: "status ?s' = ?sd" and p: "\<not> isProcessingVideo ?s'"
    using t by simp_all
  show ?thesis using e s p c r by simp
qed

subsection \<open>The session initializer\<close>

text \<open>What one run of the initializer does, path by path.\<close>

lemma initializeConversation_gate:
  "initialized c \<Longrightarrow> initializeConversation env c = (c, [])"
  by (simp add: initializeConversation_def)

lemma initializeConversation_welcome:
  assumes "\<not> initialized c" and "initStatusResponse env = Inr statusData"
    and "processed_video_count statusData = 0"
  shows "initializeConversation env c =
           ((fst (fst (queryAgent queryWelcome (initAgentResponse env) (c\<lparr>loading := True\<rparr>))))
              \<lparr>initialized := True, loading := False\<rparr>,
            [Fetch GetStatus, Fetch (AgentQuery queryWelcome)])"
  using assms
  by (simp add: initializeConversation_def queryAgent_def Let_def split: sum.splits)

lemma initializeConversation_summarize:
  assumes "\<not> initialized c" and "initStatusResponse env = Inr statusData"
    and "processed_video_count statusData > 0"
    and "initConversationResponse env = Inr conversationData"
    and "\<not> list_ex isAssistant (history conversationData)"
  shows "initializeConversation env c =
           ((fst (fst (queryAgent querySummarize (initAgentResponse env) (c\<lparr>loading := True\<rparr>))))
              \<lparr>initialized := True, loading := False\<rparr>,
            [Fetch GetStatus, Fetch GetConversation, Fetch (AgentQuery querySummarize)])"
  using assms
  by (simp add: initializeConversation_def queryAgent_def Let_def split: sum.splits)

lemma initializeConversation_existing:
  assumes "\<not> initialized c" and "initStatusResponse env = Inr statusData"
    and "processed_video_count statusData > 0"
    and "initConversationResponse env = Inr conversationData"
    and "lastAssistantMessage (history conversationData) = Some m"
  shows "initializeConversation env c =
           (c\<lparr>lastAgentResponse := content m, initialized := True, loading := False\<rparr>,
            [Fetch GetStatus, Fetch GetConversation])"
proof -
  have "list_ex isAssistant (history conversationData)"
    using assms(5) lastAssistantMessage_None [of "history conversationData"] by auto
  then show ?thesis
    using assms by (simp add: initializeConversation_def Let_def)
qed

lemma initializeConversation_status_fails:
  "\<not> initialized c \<Longrightarrow> initStatusResponse env = Inl e \<Longrightarrow>
   initializeConversation env c = (c\<lparr>loading := False\<rparr>, [Fetch GetStatus])"
  by (simp add: initializeConversation_def)

lemma initializeConversation_conversation_fails:
  "\<not> initialized c \<Longrightarrow> initStatusResponse env = Inr statusData \<Longrightarrow>
   processed_video_count statusData > 0 \<Longrightarrow> initConversationResponse env = Inl e \<Longrightarrow>
   initializeConversation env c =
     (c\<lparr>loading := False\<rparr>, [Fetch GetStatus, Fetch GetConversation])"
  by (simp add: initializeConversation_def)

lemma queryAgent_frame:
  "initialized (fst (fst (queryAgent q resp s))) = initialized s \<and>
   \<not> loading (fst (fst (queryAgent q resp s))) \<and>
   status (fst (fst (queryAgent q resp s))) = status s \<and>
   conversationState (fst (fst (queryAgent q resp s))) = conversationState s \<and>
   isProcessingF9 (fst (fst (queryAgent q resp s))) = isProcessingF9 s \<and>
   isProcessingVideo (fst (fst (queryAgent q resp s))) = isProcessingVideo s \<and>
   snd (fst (queryAgent q resp s)) = [Fetch (AgentQuery q)]"
  by (simp add: queryAgent_def Let_def split: sum.splits)

text \<open>
  Claim C9. The initializer is gated by \<open>initialized\<close>: when it holds, a run does
  nothing. Otherwise, with the status fetched: when the count is 0 the run issues the
  status fetch and the query "What can I do with this system?", once; when the count is
  positive and the fetched history holds an assistant message, it issues the two fetches
  and no agent query, and \<open>lastAgentResponse\<close> is the content of the last assistant
  message; when the count is positive and the history holds no assistant message, it
  issues the summarize query after the two fetches. In each of the three cases
  \<open>initialized\<close> holds afterwards.
\<close>

theorem initializer_bootstrap:
  "(initialized c \<longrightarrow> initializeConversation env c = (c, [])) \<and>
   (\<not> initialized c \<and> initStatusResponse env = Inr statusData \<and>
      processed_video_count statusData = 0 \<longrightarrow>
    snd (initializeConversation env c) =
      [Fetch GetStatus, Fetch (AgentQuery ''What can I do with this system?'')] \<and>
    initialized (fst (initializeConversation env c))) \<and>
   (\<not> initialized c \<and> initStatusResponse env = Inr statusData \<and>
      processed_video_count statusData > 0 \<and>
      initConversationResponse env = Inr conversationData \<and>
      history conversationData = pre @ m # suf \<and> role m = ''assistant'' \<and>
      \<not> list_ex (\<lambda>x. role x = ''assistant'') suf \<longrightarrow>
    snd (initializeConversation env c) = [Fetch GetStatus, Fetch GetConversation] \<and>
    lastAgentResponse (fst (initializeConversation env c)) = content m \<and>
    initialized (fst (initializeConversation env c))) \<and>
   (\<not> initialized c \<and> initStatusResponse env = Inr statusData \<and>
      processed_video_count statusData > 0 \<and>
      initConversationResponse env = Inr conversationData \<and>
      \<not> list_ex (\<lambda>x. role x = ''assistant'') (history conversationData) \<longrightarrow>
    snd (initializeConversation env c) =
      [Fetch GetStatus, Fetch GetConversation,
       Fetch (AgentQuery ''Please summarize what videos I have available and what I can do with them.'')] \<and>
    initialized (fst (initializeConversation env c)))"
proof -
  have isA: "(\<lambda>x. role x = ''assistant'') = isAssistant"
    by (simp add: isAssistant_def fun_eq_iff)
  have g: "initializeConversation env c = (c, [])" if "initialized c"
    using that by (rule initializeConversation_gate)
  have w: "snd (initializeConversation env c) = [Fetch GetStatus, Fetch (AgentQuery queryWelcome)] \<and>
      initialized (fst (initializeConversation env c))"
    if "\<not> initialized c" "initStatusResponse env = Inr statusData"
      "processed_video_count statusData = 0"
    by (simp add: initializeConversation_welcome [OF that])
  have x: "snd (initializeConversation env c) = [Fetch GetStatus, Fetch GetConversation] \<and>
      lastAgentResponse (fst (initializeConversation env c)) = content m \<and>
      initialized (fst (initializeConversation env c))"
    if a: "\<not> initialized c" "initStatusResponse env = Inr statusData"
      "processed_video_count statusData > 0" "initConversationResponse env = Inr conversationData"
      and h: "history conversationData = pre @ m # suf" "isAssistant m" "\<not> list_ex isAssistant suf"
  proof -
    have "lastAssistantMessage (history conversationData) = Some m"
      using h lastAssistantMessage_Some [of m suf pre] by simp
    then show ?thesis by (simp add: initializeConversation_existing [OF a])
  qed
  have y: "snd (initializeConversation env c) =
      [Fetch GetStatus, Fetch GetConversation, Fetch (AgentQuery querySummarize)] \<and>
      initialized (fst (initializeConversation env c))"
    if "\<not> initialized c" "initStatusResponse env = Inr statusData"
      "processed_video_count statusData > 0" "initConversationResponse env = Inr conversationData"
      "\<not> list_ex isAssistant (history conversationData)"
    by (simp add: initializeConversation_summarize [OF that])
  show ?thesis
    unfolding isA using g w x y
    by (simp add: isAssistant_def queryWelcome_def querySummarize_def)
qed

text \<open>
  Claim C3, as amended. \<open>setInitialized(true)\<close> is the last statement of the \<open>try\<close>
  body, not part of the \<open>finally\<close>: \<open>initialized\<close> holds after a run exactly when the
  status fetch and, for a positive count, the conversation fetch have answered. A bootstrap
  query that fails does not prevent it, since \<open>queryAgent\<close> handles its own failure. When
  one of the two fetches fails, the run leaves the state as it found it, \<open>initialized\<close>
  still false, with \<open>loading\<close> cleared by the \<open>finally\<close>. Once \<open>initialized\<close> holds, a
  further run does nothing.
\<close>

theorem initializer_marks_initialized:
  "(\<not> initialized c \<and> initStatusResponse env = Inr statusData \<and>
      (processed_video_count statusData > 0 \<longrightarrow>
         (\<exists>conversationData. initConversationResponse env = Inr conversationData)) \<longrightarrow>
    initialized (fst (initializeConversation env c)) \<and>
    \<not> loading (fst (initializeConversation env c))) \<and>
   (\<not> initialized c \<and> initStatusResponse env = Inl e \<longrightarrow>
    initializeConversation env c = (c\<lparr>loading := False\<rparr>, [Fetch GetStatus])) \<and>
   (\<not> initialized c \<and> initStatusResponse env = Inr statusData \<and>
      processed_video_count statusData > 0 \<and> initConversationResponse env = Inl e \<longrightarrow>
    initializeConversation env c =
      (c\<lparr>loading := False\<rparr>, [Fetch GetStatus, Fetch GetConversation])) \<and>
   (initialized c \<longrightarrow> initializeConversation env c = (c, []))"
proof -
  have ok: "initialized (fst (initializeConversation env c)) \<and>
      \<not> loading (fst (initializeConversation env c))"
    if a: "\<not> initialized c" "initStatusResponse env = Inr statusData"
      and b: "processed_video_count statusData > 0 \<longrightarrow>
         (\<exists>conversationData. initConversationResponse env = Inr conversationData)"
  proof (cases "processed_video_count statusData > 0")
    case False
    then have "processed_video_count statusData = 0" by simp
    then show ?thesis by (simp add: initializeConversation_welcome [OF a])
  next
    case True
    then obtain cd where cd: "initConversationResponse env = Inr cd" using b by blast
    show ?thesis
    proof (cases "lastAssistantMessage (history cd)")
      case None
      then have "\<not> list_ex isAssistant (history cd)"
        using lastAssistantMessage_cases [of "history cd"] by auto
      then show ?thesis by (simp add: initializeConversation_summarize [OF a True cd])
    next
      case (Some m)
      then show ?thesis by (simp add: initializeConversation_existing [OF a True cd])
    qed
  qed
  show ?thesis
    using ok initializeConversation_status_fails [of c env e]
      initializeConversation_conversation_fails [of c env statusData e]
      initializeConversation_gate [of c env]
    by simp
qed

text \<open>
  Claim C3 as stated fails: from the initial state, a run whose status fetch fails leaves
  \<open>initialized\<close> false.
\<close>

theorem initializer_failure_counterexample:
  "\<not> initialized initialState \<and>
   initStatusResponse sampleInitFailure = Inl NetworkError \<and>
   \<not> initialized (fst (initializeConversation sampleInitFailure initialState))"
  by (simp add: initializeConversation_def sampleInitFailure_def initialState_def)

theorem initializer_bootstrap_witness:
  "snd (initializeConversation (sampleInit 0 (Inr ''welcome'')) initialState) =
     [Fetch GetStatus, Fetch (AgentQuery ''What can I do with this system?'')] \<and>
   snd (initializeConversation (sampleInit 2 (Inr ''welcome'')) initialState) =
     [Fetch GetStatus, Fetch GetConversation] \<and>
   lastAgentResponse (fst (initializeConversation (sampleInit 2 (Inr ''welcome'')) initialState)) =
     ''hello'' \<and>
   initialized (fst (initializeConversation (sampleInit 2 (Inr ''welcome'')) initialState))"
proof -
  let ?u = "\<lparr>role = ''user'', content = ''hi''\<rparr>"
  let ?a = "\<lparr>role = ''assistant'', content = ''hello''\<rparr>"
  let ?b = "\<lparr>role = ''user'', content = ''bye''\<rparr>"
  have n: "\<not> initialized initialState" by (simp add: initialState_def)
  have s0: "initStatusResponse (sampleInit 0 (Inr ''welcome'')) =
      Inr \<lparr>is_recording = False, processed_video_count = 0\<rparr>"
    and s2: "initStatusResponse (sampleInit 2 (Inr ''welcome'')) =
      Inr \<lparr>is_recording = False, processed_video_count = 2\<rparr>"
    and c2: "initConversationResponse (sampleInit 2 (Inr ''welcome'')) = Inr sampleConversation"
    by (simp_all add: sampleInit_def)
  have h: "history sampleConversation = [?u] @ ?a # [?b]"
    by (simp add: sampleConversation_def)
  have "snd (initializeConversation (sampleInit 0 (Inr ''welcome'')) initialState) =
     [Fetch GetStatus, Fetch (AgentQuery ''What can I do with this system?'')]"
    using initializer_bootstrap [of initialState "sampleInit 0 (Inr ''welcome'')"
        "\<lparr>is_recording = False, processed_video_count = 0\<rparr>" sampleConversation "[?u]" ?a "[?b]"]
      n s0 by simp
  moreover have "snd (initializeConversation (sampleInit 2 (Inr ''welcome'')) initialState) =
     [Fetch GetStatus, Fetch GetConversation] \<and>
   lastAgentResponse (fst (initializeConversation (sampleInit 2 (Inr ''welcome'')) initialState)) =
     ''hello'' \<and>
   initialized (fst (initializeConversation (sampleInit 2 (Inr ''welcome'')) initialState))"
    using initializer_bootstrap [of initialState "sampleInit 2 (Inr ''welcome'')"
        "\<lparr>is_recording = False, processed_video_count = 2\<rparr>" sampleConversation "[?u]" ?a "[?b]"]
      n s2 c2 h by simp
  ultimately show ?thesis by simp
qed

theorem initializer_marks_initialized_witness:
  "initialized (fst (initializeConversation (sampleInit 0 (Inl NetworkError)) initialState)) \<and>
   \<not> loading (fst (initializeConversation (sampleInit 0 (Inl NetworkError)) initialState)) \<and>
   initializeConversation sampleInitFailure initialState =
     (initialState\<lparr>loading := False\<rparr>, [Fetch GetStatus])"
proof -
  have n: "\<not> initialized initialState" by (simp add: initialState_def)
  have s0: "initStatusResponse (sampleInit 0 (Inl NetworkError)) =
      Inr \<lparr>is_recording = False, processed_video_count = 0\<rparr>"
    by (simp add: sampleInit_def)
  have f: "initStatusResponse sampleInitFailure = Inl NetworkError"
    by (simp add: sampleInitFailure_def)
  have "initialized (fst (initializeConversation (sampleInit 0 (Inl NetworkError)) initialState)) \<and>
   \<not> loading (fst (initializeConversation (sampleInit 0 (Inl NetworkError)) initialState))"
    using initializer_marks_initialized [of initialState "sampleInit 0 (Inl NetworkError)"
        "\<lparr>is_recording = False, processed_video_count = 0\<rparr>" NetworkError] n s0
    by simp
  moreover have "initializeConversation sampleInitFailure initialState =
     (initialState\<lparr>loading := False\<rparr>, [Fetch GetStatus])"
    using initializer_marks_initialized [of initialState sampleInitFailure
        "\<lparr>is_recording = False, processed_video_count = 0\<rparr>" NetworkError] n f
    by simp
  ultimately show ?thesis by simp
qed

subsection \<open>The processing window\<close>

text \<open>
  While \<open>isProcessingVideo\<close> holds, an event that is not a completion report for the
  stored count leaves both the flag and the count as they are; so does a timer callback,
  and so does any run of such events.
\<close>

lemma handle_processing:
  assumes "isProcessingVideo s" and "\<not> completionReport (processed_video_count (status s)) ev"
  shows "isProcessingVideo (fst (handle ev s)) \<and>
         processed_video_count (status (fst (handle ev s))) = processed_video_count (status s)"
proof (cases ev)
  case (Init env)
  show ?thesis
    using assms(1) unfolding Init
    by (simp add: initializeConversation_def queryAgent_def Let_def
        split: sum.splits option.splits)
next
  case (PollTick env)
  show ?thesis
  proof (cases "statusResponse env")
    case (Inl e)
    then show ?thesis using assms(1) by (simp add: PollTick fetchData_status_fails)
  next
    case (Inr sd)
    have ns: "\<not> stable s" using assms(1) by (simp add: stable_def)
    have "\<not> completionEdge s sd"
      using assms(2) Inr by (simp add: PollTick completionReport_def completionEdge_def)
    then show ?thesis
      using assms(1)
      by (simp add: PollTick fetchData_window [OF ns Inr] checkStopEdge_def checkCompletionEdge_def
          Let_def)
  qed
next
  case (KeyDown key resp)
  show ?thesis
    using assms(1) by (simp add: KeyDown handleKeyDown_def keyDownGuard_def)
next
  case (Query q resp)
  show ?thesis
    using assms(1) queryAgent_frame [of q resp s] by (simp add: Query)
qed

lemma fireDue_frame:
  "isProcessingVideo (ui (fireDue t a)) = isProcessingVideo (ui a) \<and>
   status (ui (fireDue t a)) = status (ui a) \<and>
   conversationState (ui (fireDue t a)) = conversationState (ui a) \<and>
   lastAgentResponse (ui (fireDue t a)) = lastAgentResponse (ui a)"
  by (simp add: fireDue_def)

lemma dispatch_eq:
  "dispatch te a =
     (\<lparr> ui = fst (handle (snd te) (ui (fireDue (arrival te) a))),
        timers = timers (fireDue (arrival te) a) @
                 newTimers (completion te) (snd (handle (snd te) (ui (fireDue (arrival te) a)))) \<rparr>,
      snd (handle (snd te) (ui (fireDue (arrival te) a))))"
  by (simp add: dispatch_def Let_def split: prod.splits)

lemma run_Cons_eq:
  "run (te # tes) a =
     (fst (run tes (fst (dispatch te a))), snd (dispatch te a) @ snd (run tes (fst (dispatch te a))))"
  by (simp add: Let_def split: prod.splits)

lemma dispatch_processing:
  assumes "isProcessingVideo (ui a)"
    and "\<not> completionReport (processed_video_count (status (ui a))) (snd te)"
  shows "isProcessingVideo (ui (fst (dispatch te a))) \<and>
         processed_video_count (status (ui (fst (dispatch te a)))) =
           processed_video_count (status (ui a))"
proof -
  have "isProcessingVideo (ui (fireDue (arrival te) a))"
    and "processed_video_count (status (ui (fireDue (arrival te) a))) =
           processed_video_count (status (ui a))"
    using assms(1) by (simp_all add: fireDue_frame)
  then show ?thesis
    using handle_processing [of "ui (fireDue (arrival te) a)" "snd te"] assms(2)
    by (simp add: dispatch_eq)
qed

lemma run_processing:
  assumes "isProcessingVideo (ui a)"
    and "list_all (\<lambda>te. \<not> completionReport (processed_video_count (status (ui a))) (snd te)) tes"
  shows "isProcessingVideo (ui (fst (run tes a))) \<and>
         processed_video_count (status (ui (fst (run tes a)))) =
           processed_video_count (status (ui a))"
  using assms
proof (induction tes arbitrary: a)
  case Nil
  then show ?case by simp
next
  case (Cons te tes)
  have d: "isProcessingVideo (ui (fst (dispatch te a)))"
    "processed_video_count (status (ui (fst (dispatch te a)))) =
       processed_video_count (status (ui a))"
    using dispatch_processing [of a te] Cons.prems by simp_all
  have "isProcessingVideo (ui (fst (run tes (fst (dispatch te a))))) \<and>
      processed_video_count (status (ui (fst (run tes (fst (dispatch te a)))))) =
        processed_video_count (status (ui (fst (dispatch te a))))"
    using Cons.IH [of "fst (dispatch te a)"] d Cons.prems(2) by simp
  then show ?case using d by (simp only: run_Cons_eq fst_conv)
qed

text \<open>
  Claim C10. Once \<open>isProcessingVideo\<close> holds, an event that clears it is a poll tick whose
  status fetch answered "not recording" with a count above the stored one: hotkey events,
  agent queries, the initializer, poll ticks whose fetch fails and the cooldown callback
  all leave it set. So along any run of events none of which is such a report for the
  stored count, the state stays in processing.
\<close>

theorem processing_only_cleared_by_completion:
  "(isProcessingVideo s \<and> \<not> isProcessingVideo (fst (handle ev s)) \<longrightarrow>
      (\<exists>env statusData. ev = PollTick env \<and> statusResponse env = Inr statusData \<and>
         \<not> is_recording statusData \<and>
         processed_video_count (status s) < processed_video_count statusData)) \<and>
   (isProcessingVideo (ui a) \<longrightarrow> isProcessingVideo (ui (fireDue t a))) \<and>
   (isProcessingVideo (ui a) \<and>
      list_all (\<lambda>te. \<not> completionReport (processed_video_count (status (ui a))) (snd te)) tes \<longrightarrow>
    isProcessingVideo (ui (fst (run tes a))))"
proof -
  have a: "\<exists>env statusData. ev = PollTick env \<and> statusResponse env = Inr statusData \<and>
         \<not> is_recording statusData \<and>
         processed_video_count (status s) < processed_video_count statusData"
    if p: "isProcessingVideo s" and q: "\<not> isProcessingVideo (fst (handle ev s))"
  proof -
    have "completionReport (processed_video_count (status s)) ev"
      using handle_processing [OF p] q by blast
    then show ?thesis
      by (auto simp: completionReport_def split: event.splits sum.splits)
  qed
  show ?thesis
    using a run_processing [of a tes] by (simp add: fireDue_frame)
qed

theorem processing_only_cleared_by_completion_witness:
  "isProcessingVideo (ui (fst (run sampleWindow \<lparr>ui = processingState, timers = []\<rparr>))) \<and>
   isProcessingVideo (ui (fireDue 1000 \<lparr>ui = processingState, timers = [1000]\<rparr>))"
proof -
  let ?a = "\<lparr>ui = processingState, timers = []\<rparr>"
  have p: "isProcessingVideo (ui ?a)" "isProcessingVideo (ui \<lparr>ui = processingState, timers = [1000]\<rparr>)"
    by (simp_all add: processingState_def)
  have n: "processed_video_count (status (ui ?a)) = 0"
    by (simp add: processingState_def initialState_def)
  have l: "list_all (\<lambda>te. \<not> completionReport (processed_video_count (status (ui ?a))) (snd te))
      sampleWindow"
    unfolding n by (simp add: sampleWindow_def completionReport_def failedPoll_def samplePoll_def)
  show ?thesis
    using processing_only_cleared_by_completion [of processingState "PollTick failedPoll" ?a 0 sampleWindow]
      processing_only_cleared_by_completion [of processingState "PollTick failedPoll"
        "\<lparr>ui = processingState, timers = [1000]\<rparr>" 1000 "[]"] p l
    by simp
qed

text \<open>The state the session \<open>echoTrace\<close> ends in: recording and processing at once.\<close>

lemma echoState_eq:
  "echoState =
     initialState\<lparr>status := \<lparr>is_recording = True, processed_video_count = 0\<rparr>,
       lastAgentResponse := msgRecordingStopped, isProcessingVideo := True\<rparr>"
  by (simp add: echoState_def echoTrace_def initialApp_def initialState_def dispatch_eq
      arrival_def completion_def fireDue_def handleKeyDown_def keyDownGuard_def keyDownBefore_def keyDownAfter_def
      fetchData_def samplePoll_def stable_def updateStatus_def checkStopEdge_def stopEdge_def
      checkCompletionEdge_def completionEdge_def Let_def)

text \<open>
  Claim C2, as amended. A tick that finds the stored status recording and fetches a status
  that is not recording, and on which the completion condition does not hold as well (it is
  not the case that \<open>isProcessingVideo\<close> was already set and the fetched count is above the
  stored count \<open>N\<close>), sets \<open>isProcessingVideo\<close>, publishes the placeholder, and changes
  nothing of the status but the recording flag: the count is still \<open>N\<close>. From then on the
  count stays \<open>N\<close> and the flag stays set through every run of events, whatever timers
  are pending, until a tick reports "not recording" with a count above \<open>N\<close>.
\<close>

theorem stop_edge_tick:
  assumes "is_recording (status c)"
    and "statusResponse env = Inr statusData"
    and "\<not> is_recording statusData"
    and "\<not> (isProcessingVideo c \<and>
            processed_video_count (status c) < processed_video_count statusData)"
  shows "snd (fetchData env c) = [Fetch GetStatus] \<and>
         isProcessingVideo (fst (fetchData env c)) \<and>
         lastAgentResponse (fst (fetchData env c)) =
           ''Recording stopped. Processing your video, please wait...'' \<and>
         status (fst (fetchData env c)) = (status c)\<lparr>is_recording := False\<rparr> \<and>
         conversationState (fst (fetchData env c)) = conversationState c \<and>
         (\<forall>tes ts.
            list_all (\<lambda>te. \<not> completionReport (processed_video_count (status c)) (snd te)) tes \<longrightarrow>
            processed_video_count
              (status (ui (fst (run tes \<lparr>ui = fst (fetchData env c), timers = ts\<rparr>)))) =
              processed_video_count (status c) \<and>
            isProcessingVideo (ui (fst (run tes \<lparr>ui = fst (fetchData env c), timers = ts\<rparr>))))"
proof -
  let ?s' = "c\<lparr>status := (status c)\<lparr>is_recording := False\<rparr>, isProcessingVideo := True,
      lastAgentResponse := msgRecordingStopped\<rparr>"
  have ns: "\<not> stable c" using assms(1) by (simp add: stable_def)
  have se: "stopEdge c statusData" using assms(1,3) by (simp add: stopEdge_def)
  have ce: "\<not> completionEdge c statusData" using assms(4) by (simp add: completionEdge_def)
  have eq: "fetchData env c = (?s', [Fetch GetStatus])"
    using se ce assms(3)
    by (simp add: fetchData_window [OF ns assms(2)] checkStopEdge_def checkCompletionEdge_def
        Let_def)
  have later: "processed_video_count (status (ui (fst (run tes \<lparr>ui = ?s', timers = ts\<rparr>)))) =
        processed_video_count (status c) \<and>
      isProcessingVideo (ui (fst (run tes \<lparr>ui = ?s', timers = ts\<rparr>)))"
    if "list_all (\<lambda>te. \<not> completionReport (processed_video_count (status c)) (snd te)) tes"
    for tes ts
    using run_processing [of "\<lparr>ui = ?s', timers = ts\<rparr>" tes] that by simp
  show ?thesis
    using later by (simp add: eq msgRecordingStopped_def)
qed

theorem stop_edge_tick_witness:
  "fetchData (samplePoll False 0) (initialState\<lparr>status := \<lparr>is_recording = True, processed_video_count = 0\<rparr>\<rparr>) =
     (initialState\<lparr>status := \<lparr>is_recording = False, processed_video_count = 0\<rparr>,
        lastAgentResponse := ''Recording stopped. Processing your video, please wait...'',
        isProcessingVideo := True\<rparr>, [Fetch GetStatus]) \<and>
   processed_video_count (status (ui (fst (run sampleWindow
     \<lparr>ui = fst (fetchData (samplePoll False 0)
              (initialState\<lparr>status := \<lparr>is_recording = True, processed_video_count = 0\<rparr>\<rparr>)),
      timers = []\<rparr>)))) = 0"
proof -
  let ?c = "initialState\<lparr>status := \<lparr>is_recording = True, processed_video_count = 0\<rparr>\<rparr>"
  let ?sd = "\<lparr>is_recording = False, processed_video_count = 0\<rparr>"
  let ?s' = "fst (fetchData (samplePoll False 0) ?c)"
  have h1: "is_recording (status ?c)" by simp
  have h2: "statusResponse (samplePoll False 0) = Inr ?sd" by (simp add: samplePoll_def)
  have h3: "\<not> is_recording ?sd" by simp
  have h4: "\<not> (isProcessingVideo ?c \<and> processed_video_count (status ?c) < processed_video_count ?sd)"
    by simp
  note t = stop_edge_tick [OF h1 h2 h3 h4]
  have n: "processed_video_count (status ?c) = 0" by simp
  have l: "list_all (\<lambda>te. \<not> completionReport (processed_video_count (status ?c)) (snd te)) sampleWindow"
    unfolding n by (simp add: sampleWindow_def completionReport_def failedPoll_def samplePoll_def)
  have a: "\<forall>tes ts.
            list_all (\<lambda>te. \<not> completionReport (processed_video_count (status ?c)) (snd te)) tes \<longrightarrow>
            processed_video_count (status (ui (fst (run tes \<lparr>ui = ?s', timers = ts\<rparr>)))) =
              processed_video_count (status ?c) \<and>
            isProcessingVideo (ui (fst (run tes \<lparr>ui = ?s', timers = ts\<rparr>)))"
    using t by simp
  have r: "processed_video_count (status (ui (fst (run sampleWindow \<lparr>ui = ?s', timers = []\<rparr>)))) = 0"
    using a [rule_format, OF l, of "[]"] by simp
  have e: "snd (fetchData (samplePoll False 0) ?c) = [Fetch GetStatus]"
    and p: "isProcessingVideo ?s'"
    and m: "lastAgentResponse ?s' = ''Recording stopped. Processing your video, please wait...''"
    and s: "status ?s' = (status ?c)\<lparr>is_recording := False\<rparr>"
    and c: "conversationState ?s' = conversationState ?c"
    using t by simp_all
  have "fetchData (samplePoll False 0) ?c =
     (initialState\<lparr>status := \<lparr>is_recording = False, processed_video_count = 0\<rparr>,
        lastAgentResponse := ''Recording stopped. Processing your video, please wait...'',
        isProcessingVideo := True\<rparr>, [Fetch GetStatus])"
    by (simp add: fetchData_def samplePoll_def stable_def updateStatus_def checkStopEdge_def
        stopEdge_def checkCompletionEdge_def completionEdge_def msgRecordingStopped_def
        initialState_def)
  then show ?thesis using r by simp
qed

text \<open>
  Claim C2 as stated fails in the state \<open>echoState\<close>, which the session \<open>echoTrace\<close>
  reaches from the initial page: the stored status is recording with count 0 while the
  first video is still being processed. The tick that then fetches "not recording" with
  count 1 meets the completion condition too: afterwards \<open>isProcessingVideo\<close> is false,
  the published response is the assistant's message, and the stored count is 1.
\<close>

theorem stop_edge_completion_counterexample:
  "echoState = ui (fst (run echoTrace initialApp)) \<and>
   is_recording (status echoState) \<and>
   isProcessingVideo echoState \<and>
   processed_video_count (status echoState) = 0 \<and>
   statusResponse (samplePoll False 1) = Inr \<lparr>is_recording = False, processed_video_count = 1\<rparr> \<and>
   \<not> isProcessingVideo (fst (fetchData (samplePoll False 1) echoState)) \<and>
   lastAgentResponse (fst (fetchData (samplePoll False 1) echoState)) = ''hello'' \<and>
   processed_video_count (status (fst (fetchData (samplePoll False 1) echoState))) = 1"
proof -
  have r: "echoState = ui (fst (run echoTrace initialApp))"
    by (simp only: echoState_def)
  have s: "is_recording (status echoState) \<and> isProcessingVideo echoState \<and>
      processed_video_count (status echoState) = 0"
    by (simp add: echoState_eq)
  have p: "statusResponse (samplePoll False 1) = Inr \<lparr>is_recording = False, processed_video_count = 1\<rparr>"
    by (simp add: samplePoll_def)
  have ns: "\<not> stable echoState" using s by (simp add: stable_def)
  have l: "lastAssistantMessage (history sampleConversation) =
      Some \<lparr>role = ''assistant'', content = ''hello''\<rparr>"
    by (simp add: sampleConversation_def lastAssistantMessage_def isAssistant_def)
  have t: "\<not> isProcessingVideo (fst (fetchData (samplePoll False 1) echoState)) \<and>
      lastAgentResponse (fst (fetchData (samplePoll False 1) echoState)) = ''hello'' \<and>
      processed_video_count (status (fst (fetchData (samplePoll False 1) echoState))) = 1"
    using s l
    by (simp only: fetchData_window [OF ns p])
       (simp add: samplePoll_def checkStopEdge_def stopEdge_def checkCompletionEdge_def
        completionEdge_def adoptConversation_eq Let_def)
  show ?thesis using r s p t by simp
qed

subsection \<open>The cooldown\<close>

text \<open>
  An event either leaves \<open>isProcessingF9\<close> alone, schedules nothing and calls no toggle,
  or it is an F9 keydown that passed the guard: then the flag is set, one toggle call goes
  out and one callback is scheduled, due a second after that call has completed. Hence
  \<open>timersOk\<close> holds in every state a session reaches.
\<close>

lemma toggleCalls_append: "toggleCalls (xs @ ys) = toggleCalls xs + toggleCalls ys"
  by (simp add: toggleCalls_def)

lemma handle_timers:
  "(isProcessingF9 (fst (handle ev s)) = isProcessingF9 s \<and>
    newTimers t (snd (handle ev s)) = [] \<and> toggleCalls (snd (handle ev s)) = 0) \<or>
   (\<not> keyDownGuard s \<and> isProcessingF9 (fst (handle ev s)) \<and>
    newTimers t (snd (handle ev s)) = [t + 1000] \<and> toggleCalls (snd (handle ev s)) = 1)"
proof (cases ev)
  case (Init env)
  show ?thesis
    unfolding Init
    by (simp add: initializeConversation_def queryAgent_def toggleCalls_def Let_def
        split: sum.splits option.splits)
next
  case (PollTick env)
  show ?thesis
    unfolding PollTick
    by (simp add: fetchData_def updateStatus_def checkStopEdge_def checkCompletionEdge_def
        adoptConversation_eq toggleCalls_def Let_def split: sum.splits prod.splits)
next
  case (KeyDown key resp)
  show ?thesis
    unfolding KeyDown
    by (simp add: handleKeyDown_def keyDownBefore_def keyDownAfter_def toggleCalls_def Let_def
        split: sum.splits)
next
  case (Query q resp)
  show ?thesis
    unfolding Query using queryAgent_frame [of q resp s] by (simp add: toggleCalls_def)
qed

lemma timersOk_fireDue: "timersOk a \<Longrightarrow> timersOk (fireDue t a)"
  by (cases "timers a") (auto simp: timersOk_def fireDue_def split: if_splits)

lemma timersOk_dispatch:
  assumes "timersOk a"
  shows "timersOk (fst (dispatch te a))"
proof -
  let ?a1 = "fireDue (arrival te) a"
  have ok: "timersOk ?a1" using assms by (rule timersOk_fireDue)
  from handle_timers [of "snd te" "ui ?a1" "completion te"] show ?thesis
  proof
    assume "isProcessingF9 (fst (handle (snd te) (ui ?a1))) = isProcessingF9 (ui ?a1) \<and>
      newTimers (completion te) (snd (handle (snd te) (ui ?a1))) = [] \<and>
      toggleCalls (snd (handle (snd te) (ui ?a1))) = 0"
    then show ?thesis using ok by (simp add: dispatch_eq timersOk_def)
  next
    assume "\<not> keyDownGuard (ui ?a1) \<and> isProcessingF9 (fst (handle (snd te) (ui ?a1))) \<and>
      newTimers (completion te) (snd (handle (snd te) (ui ?a1))) = [completion te + 1000] \<and>
      toggleCalls (snd (handle (snd te) (ui ?a1))) = 1"
    then show ?thesis using ok by (simp add: dispatch_eq timersOk_def keyDownGuard_def)
  qed
qed

lemma timersOk_run: "timersOk a \<Longrightarrow> timersOk (fst (run tes a))"
proof (induction tes arbitrary: a)
  case Nil
  then show ?case by simp
next
  case (Cons te tes)
  then show ?case by (simp only: run_Cons_eq fst_conv timersOk_dispatch)
qed

lemma timersOk_initialApp: "timersOk initialApp"
  by (simp add: timersOk_def initialApp_def initialState_def)

lemma timersOk_reachable: "timersOk (fst (run tes initialApp))"
  by (rule timersOk_run [OF timersOk_initialApp])

lemma fireDue_pending:
  "timers a = [d] \<Longrightarrow> t < d \<Longrightarrow> fireDue t a = a"
  by (simp add: fireDue_def)

lemma fireDue_elapsed:
  "timers a = [d] \<Longrightarrow> d \<le> t \<Longrightarrow>
   \<not> isProcessingF9 (ui (fireDue t a)) \<and> timers (fireDue t a) = []"
  by (simp add: fireDue_def)

lemma dispatch_cooldown:
  assumes "isProcessingF9 (ui a)" and "timers a = [d]" and "arrival te < d"
  shows "toggleCalls (snd (dispatch te a)) = 0 \<and> isProcessingF9 (ui (fst (dispatch te a))) \<and>
         timers (fst (dispatch te a)) = [d]"
proof -
  have f: "fireDue (arrival te) a = a" using assms(2,3) by (rule fireDue_pending)
  have g: "keyDownGuard (ui a)" using assms(1) by (simp add: keyDownGuard_def)
  show ?thesis
    using handle_timers [of "snd te" "ui a" "completion te"] g assms(1,2)
    by (auto simp: dispatch_eq f)
qed

lemma run_cooldown:
  assumes "isProcessingF9 (ui a)" and "timers a = [d]" and "list_all (\<lambda>te. arrival te < d) tes"
  shows "toggleCalls (snd (run tes a)) = 0 \<and> isProcessingF9 (ui (fst (run tes a))) \<and>
         timers (fst (run tes a)) = [d]"
  using assms
proof (induction tes arbitrary: a)
  case Nil
  then show ?case by (simp add: toggleCalls_def)
next
  case (Cons te tes)
  have d: "toggleCalls (snd (dispatch te a)) = 0" "isProcessingF9 (ui (fst (dispatch te a)))"
    "timers (fst (dispatch te a)) = [d]"
    using dispatch_cooldown [of a d te] Cons.prems by simp_all
  have "toggleCalls (snd (run tes (fst (dispatch te a)))) = 0 \<and>
      isProcessingF9 (ui (fst (run tes (fst (dispatch te a))))) \<and>
      timers (fst (run tes (fst (dispatch te a)))) = [d]"
    using Cons.IH [OF d(2,3)] Cons.prems(3) by simp
  then show ?case using d(1) by (simp only: run_Cons_eq fst_conv snd_conv toggleCalls_append) simp
qed

text \<open>
  Claim C8. Take a page whose timers are in order (as in every reachable state) and an F9
  keydown that arrives at time \<open>t0\<close>, passes the guard, and whose toggle call takes \<open>w\<close>
  milliseconds, whether it then succeeds or fails. The call completes at \<open>t0 + w\<close> and
  the cooldown ends at \<open>t0 + w + 1000\<close>. Whatever events arrive before the end of the
  cooldown, F9 repeats among them, during the call or after it, the whole run issues
  exactly one toggle call and leaves \<open>isProcessingF9\<close> set with one pending callback, due
  at \<open>t0 + w + 1000\<close>. The flag is still set at every time before \<open>t0 + w + 1000\<close>, also
  at times later than a second after the key press; at every time from \<open>t0 + w + 1000\<close> on
  the callback has run, the flag is false and no callback is pending.
\<close>

theorem toggle_debounce:
  assumes "timersOk a"
    and "\<not> isProcessingF9 (ui (fireDue t0 a))"
    and "\<not> isProcessingVideo (ui a)"
    and "list_all (\<lambda>te. arrival te < t0 + w + 1000) tes"
  shows "toggleCalls (snd (run (((t0, w), KeyDown ''F9'' resp) # tes) a)) = 1 \<and>
         isProcessingF9 (ui (fst (run (((t0, w), KeyDown ''F9'' resp) # tes) a))) \<and>
         timers (fst (run (((t0, w), KeyDown ''F9'' resp) # tes) a)) = [t0 + w + 1000] \<and>
         (\<forall>t. t < t0 + w + 1000 \<longrightarrow>
            isProcessingF9 (ui (fireDue t (fst (run (((t0, w), KeyDown ''F9'' resp) # tes) a))))) \<and>
         (\<forall>t. t0 + w + 1000 \<le> t \<longrightarrow>
            \<not> isProcessingF9 (ui (fireDue t (fst (run (((t0, w), KeyDown ''F9'' resp) # tes) a)))) \<and>
            timers (fireDue t (fst (run (((t0, w), KeyDown ''F9'' resp) # tes) a))) = [])"
proof -
  let ?te = "((t0, w), KeyDown ''F9'' resp)"
  let ?a1 = "fireDue t0 a"
  let ?b = "fst (dispatch ?te a)"
  let ?r = "run (?te # tes) a"
  have ar: "arrival ?te = t0" and co: "completion ?te = t0 + w"
    by (simp_all add: arrival_def completion_def)
  have ok: "timersOk ?a1" using assms(1) by (rule timersOk_fireDue)
  have nt: "timers ?a1 = []" using ok assms(2) by (simp add: timersOk_def)
  have ng: "\<not> keyDownGuard (ui ?a1)"
    using assms(2,3) by (simp add: keyDownGuard_def fireDue_frame)
  have h: "handleKeyDown ''F9'' resp (ui ?a1) =
      (keyDownAfter resp (keyDownBefore (ui ?a1)),
       [PreventDefault, Fetch ToggleRecording, SetTimeout 1000])"
    using ng by (simp add: handleKeyDown_def)
  have bf: "isProcessingF9 (ui ?b)"
    by (simp add: dispatch_eq ar co h keyDownAfter_def keyDownBefore_def Let_def split: sum.splits)
  have bt: "timers ?b = [t0 + w + 1000]"
    by (simp add: dispatch_eq ar co h nt)
  have bc: "toggleCalls (snd (dispatch ?te a)) = 1"
    by (simp add: dispatch_eq ar co h toggleCalls_def)
  have wd: "toggleCalls (snd (run tes ?b)) = 0 \<and> isProcessingF9 (ui (fst (run tes ?b))) \<and>
      timers (fst (run tes ?b)) = [t0 + w + 1000]"
    using run_cooldown [OF bf bt assms(4)] .
  have r1: "toggleCalls (snd ?r) = 1"
    using bc wd by (simp only: run_Cons_eq snd_conv toggleCalls_append)
  have r2: "isProcessingF9 (ui (fst ?r))" and r3: "timers (fst ?r) = [t0 + w + 1000]"
    using wd by (simp_all only: run_Cons_eq fst_conv)
  have r4: "isProcessingF9 (ui (fireDue t (fst ?r)))" if "t < t0 + w + 1000" for t
    using fireDue_pending [OF r3 that] r2 by simp
  have r5: "\<not> isProcessingF9 (ui (fireDue t (fst ?r))) \<and> timers (fireDue t (fst ?r)) = []"
    if "t0 + w + 1000 \<le> t" for t
    using fireDue_elapsed [OF r3 that] .
  show ?thesis using r1 r2 r3 r4 r5 by blast
qed

theorem toggle_debounce_witness:
  "toggleCalls (snd (run (((0, 500), KeyDown ''F9'' (Inl NetworkError)) # sampleRepeats) initialApp)) = 1 \<and>
   timers (fst (run (((0, 500), KeyDown ''F9'' (Inl NetworkError)) # sampleRepeats) initialApp)) = [1500] \<and>
   isProcessingF9
     (ui (fireDue 1499 (fst (run (((0, 500), KeyDown ''F9'' (Inl NetworkError)) # sampleRepeats) initialApp)))) \<and>
   \<not> isProcessingF9
       (ui (fireDue 1500 (fst (run (((0, 500), KeyDown ''F9'' (Inl NetworkError)) # sampleRepeats) initialApp))))"
proof -
  let ?r = "run (((0, 500), KeyDown ''F9'' (Inl NetworkError)) # sampleRepeats) initialApp"
  have h2: "\<not> isProcessingF9 (ui (fireDue 0 initialApp))"
    and h3: "\<not> isProcessingVideo (ui initialApp)"
    by (simp_all add: fireDue_def initialApp_def initialState_def)
  have h4: "list_all (\<lambda>te. arrival te < 0 + 500 + 1000) sampleRepeats"
    by (simp add: sampleRepeats_def arrival_def)
  note t = toggle_debounce [OF timersOk_initialApp h2 h3 h4, of "Inl NetworkError"]
  have c: "toggleCalls (snd ?r) = 1" and d: "timers (fst ?r) = [0 + 500 + 1000]"
    using t by simp_all
  have e: "\<forall>t. t < 0 + 500 + 1000 \<longrightarrow> isProcessingF9 (ui (fireDue t (fst ?r)))"
    and f: "\<forall>t. 0 + 500 + 1000 \<le> t \<longrightarrow> \<not> isProcessingF9 (ui (fireDue t (fst ?r)))"
    using t by simp_all
  have e': "isProcessingF9 (ui (fireDue 1499 (fst ?r)))"
    using e [rule_format, of 1499] by simp
  have f': "\<not> isProcessingF9 (ui (fireDue 1500 (fst ?r)))"
    using f [rule_format, of 1500] by simp
  show ?thesis using c d e' f' by simp
qed

end
